theory Spec2Isabelle
  imports Complex_Main "HOL-Library.Sublist"
begin

section \<open>JavaScript values and strings\<close>

text \<open>
  The values that travel through \<open>aiController.js\<close> untyped (the parsed reply of the
  generative service, the fields of a course object that are only passed on) are values
  of \<open>jsval\<close>. Numbers are integers: the only arithmetic of the controller is on the
  duration in weeks. An object is the list of its own properties.
\<close>

datatype jsval =
    JUndefined
  | JNull
  | JBool bool
  | JNum int
  | JStr string
  | JArr "jsval list"
  | JObj "(string \<times> jsval) list"

text \<open>\<open>!v\<close> is \<open>\<not> truthy v\<close>; \<open>a || b\<close> is \<open>js_or a b\<close>.\<close>

fun truthy :: "jsval \<Rightarrow> bool" where
  "truthy JUndefined = False"
| "truthy JNull = False"
| "truthy (JBool b) = b"
| "truthy (JNum n) = (n \<noteq> 0)"
| "truthy (JStr s) = (s \<noteq> [])"
| "truthy (JArr xs) = True"
| "truthy (JObj kvs) = True"

definition js_or :: "jsval \<Rightarrow> jsval \<Rightarrow> jsval" where
  "js_or a b = (if truthy a then a else b)"

text \<open>
  Strings are lists of characters. \<open>toLowerCase\<close> maps the letters A to Z to a to z and
  leaves every other character as it is.
\<close>

definition lower_char :: "char \<Rightarrow> char" where
  "lower_char c =
     (case map_of (zip ''ABCDEFGHIJKLMNOPQRSTUVWXYZ'' ''abcdefghijklmnopqrstuvwxyz'') c of
        Some d \<Rightarrow> d
      | None \<Rightarrow> c)"

definition toLowerCase :: "string \<Rightarrow> string" where
  "toLowerCase s = map lower_char s"

text \<open>\<open>s.includes(k)\<close>: \<open>k\<close> occurs in \<open>s\<close> as a contiguous run of characters.\<close>

fun js_includes :: "string \<Rightarrow> string \<Rightarrow> bool" where
  "js_includes [] k = (k = [])"
| "js_includes (c # cs) k = (prefix k (c # cs) \<or> js_includes cs k)"

text \<open>
  The decimal text of an integer, as a template literal interpolates it (the code prints
  a magnitude of \<open>1e21\<close> or more with an exponent; the durations are far below).
\<close>

definition digit_char :: "nat \<Rightarrow> char" where
  "digit_char d = ''0123456789'' ! d"

function digits_onto :: "nat \<Rightarrow> string \<Rightarrow> string" where
  "digits_onto n acc =
     (if n < 10 then digit_char n # acc
      else digits_onto (n div 10) (digit_char (n mod 10) # acc))"
  by pat_completeness auto
termination
  by (relation "measure fst") auto

declare digits_onto.simps [simp del]

definition text_of_nat :: "nat \<Rightarrow> string" where
  "text_of_nat n = digits_onto n []"

definition text_of_int :: "int \<Rightarrow> string" where
  "text_of_int i =
     (if 0 \<le> i then text_of_nat (nat i) else CHR ''-'' # text_of_nat (nat (- i)))"

text \<open>
  \<open>for (let i = start; i < n; i++) acc.push(f(i))\<close>, the loop of both generators.
\<close>

function push_loop :: "(nat \<Rightarrow> 'a) \<Rightarrow> nat \<Rightarrow> int \<Rightarrow> 'a list \<Rightarrow> 'a list" where
  "push_loop f i n acc =
     (if int i < n then push_loop f (Suc i) n (acc @ [f i]) else acc)"
  by pat_completeness auto
termination
  by (relation "measure (\<lambda>(f, i, n, acc). nat (n - int i))") auto

declare push_loop.simps [simp del]


section \<open>The category classifier\<close>

definition determineCourseCategory :: "string \<Rightarrow> string" where
  "determineCourseCategory courseName =
     (let courseLower = toLowerCase courseName in
      if js_includes courseLower ''programming'' \<or>
         js_includes courseLower ''coding'' \<or>
         js_includes courseLower ''development'' \<or>
         js_includes courseLower ''javascript'' \<or>
         js_includes courseLower ''python'' \<or>
         js_includes courseLower ''java'' \<or>
         js_includes courseLower ''web''
      then ''Programming''
      else if js_includes courseLower ''design'' \<or>
              js_includes courseLower ''ui'' \<or>
              js_includes courseLower ''ux''
      then ''Design''
      else if js_includes courseLower ''business'' \<or>
              js_includes courseLower ''marketing'' \<or>
              js_includes courseLower ''management''
      then ''Business''
      else if js_includes courseLower ''data'' \<or>
              js_includes courseLower ''machine learning'' \<or>
              js_includes courseLower ''ai'' \<or>
              js_includes courseLower ''analytics''
      then ''Data Science''
      else ''Other'')"

text \<open>The keyword groups of the classifier, in the order it tests them.\<close>

definition programming_keywords :: "string list" where
  "programming_keywords =
     [''programming'', ''coding'', ''development'', ''javascript'', ''python'', ''java'', ''web'']"

definition design_keywords :: "string list" where
  "design_keywords = [''design'', ''ui'', ''ux'']"

definition business_keywords :: "string list" where
  "business_keywords = [''business'', ''marketing'', ''management'']"

definition data_science_keywords :: "string list" where
  "data_science_keywords = [''data'', ''machine learning'', ''ai'', ''analytics'']"

definition matches_group :: "string \<Rightarrow> string list \<Rightarrow> bool" where
  "matches_group topic ks = list_ex (js_includes (toLowerCase topic)) ks"


section \<open>The deterministic outline generator\<close>

record module =
  m_title :: jsval
  m_description :: jsval
  m_topics :: "jsval list"

definition introTitles :: "string list" where
  "introTitles = [''Introduction to'', ''Fundamentals of'', ''Getting Started with'']"

definition intermediateTitles :: "string list" where
  "intermediateTitles =
     [''Advanced Concepts in'', ''Practical Applications of'', ''Deep Dive into'']"

definition advancedTitles :: "string list" where
  "advancedTitles = [''Mastering'', ''Expert Techniques for'', ''Professional'']"

definition getModuleTitle :: "string \<Rightarrow> nat \<Rightarrow> string" where
  "getModuleTitle courseName moduleIndex =
     (if moduleIndex = 0 then introTitles ! 0 @ '' '' @ courseName
      else if moduleIndex = 1 then introTitles ! 2 @ '' '' @ courseName @ '' Development''
      else if moduleIndex = 2 then intermediateTitles ! 0 @ '' '' @ courseName
      else if moduleIndex = 3 then intermediateTitles ! 1 @ '' '' @ courseName
      else advancedTitles ! 0 @ '' '' @ courseName)"

definition beginnerTopics :: "string list" where
  "beginnerTopics =
     [''Understanding the basics'',
      ''Core principles and concepts'',
      ''Setting up your environment'',
      ''Your first project'',
      ''Best practices for beginners'',
      ''Common mistakes to avoid'']"

definition intermediateTopics :: "string list" where
  "intermediateTopics =
     [''Advanced techniques'',
      ''Optimizing your workflow'',
      ''Building complex projects'',
      ''Integration with other systems'',
      ''Performance considerations'',
      ''Testing and debugging'']"

definition advancedTopics :: "string list" where
  "advancedTopics =
     [''Expert-level strategies'',
      ''Cutting-edge methodologies'',
      ''Enterprise-scale implementation'',
      ''Architecture and design patterns'',
      ''Performance optimization'',
      ''Advanced troubleshooting'']"

definition topicCount :: "string \<Rightarrow> int" where
  "topicCount difficulty =
     (if difficulty = ''beginner'' then 4
      else if difficulty = ''intermediate'' then 5 else 6)"

definition topicPool :: "string \<Rightarrow> string list" where
  "topicPool difficulty =
     (if difficulty = ''beginner'' then beginnerTopics
      else if difficulty = ''intermediate'' then intermediateTopics
      else advancedTopics)"

text \<open>
  The pools hold six phrases and \<open>topicCount\<close> is at most six, so \<open>topicPool[i]\<close> is
  always read in range.
\<close>

definition generateTopics :: "string \<Rightarrow> nat \<Rightarrow> string \<Rightarrow> jsval list" where
  "generateTopics courseName moduleIndex difficulty =
     push_loop (\<lambda>i. JStr (topicPool difficulty ! i @ '' for '' @ courseName))
       0 (topicCount difficulty) []"

text \<open>
  \<open>Math.floor(duration / 4)\<close> is \<open>duration div 4\<close> on integers, and
  \<open>Math.ceil(duration / w)\<close> for \<open>w \<ge> 1\<close> is \<open>- (- duration div w)\<close>.
\<close>

definition weeksPerModule :: "int \<Rightarrow> int" where
  "weeksPerModule duration = max 1 (duration div 4)"

definition moduleCount :: "int \<Rightarrow> int" where
  "moduleCount duration = max 3 (- ((- duration) div weeksPerModule duration))"

definition mock_module :: "string \<Rightarrow> string \<Rightarrow> nat \<Rightarrow> module" where
  "mock_module courseName difficulty i =
     \<lparr> m_title = JStr (''Module '' @ text_of_nat (i + 1) @ '': '' @ getModuleTitle courseName i),
       m_description = JStr (''This module covers essential concepts related to '' @
                            toLowerCase (getModuleTitle courseName i) @ ''.''),
       m_topics = generateTopics courseName i difficulty \<rparr>"

definition generateMockOutline :: "string \<Rightarrow> int \<Rightarrow> string \<Rightarrow> module list" where
  "generateMockOutline courseName duration difficulty =
     push_loop (mock_module courseName difficulty) 0 (moduleCount duration) []"


section \<open>Courses, errors and replies\<close>

text \<open>
  A course object as the controller builds and receives it. The fields the controller
  only passes on are untyped values; a field a generated course does not have
  (\<open>image\<close>, \<open>price\<close>) is \<open>JUndefined\<close>. The outline is the array the controller
  iterates over.
\<close>

record course =
  c_title :: jsval
  c_description :: jsval
  c_image :: jsval
  c_price :: jsval
  c_duration :: jsval
  c_difficulty :: jsval
  c_category :: jsval
  c_outline :: "module list"

text \<open>
  Everything the controller can throw or catch. \<open>UpstreamError\<close> is any failure of the
  call to the generative service; \<open>ParseError\<close> is the \<open>Error\<close> of line 177 and the
  \<open>SyntaxError\<close> of \<open>JSON.parse\<close>; \<open>SchemaError\<close> is the \<open>Error\<close> of line 185;
  \<open>TypeError\<close> is a property read on \<open>null\<close> or \<open>undefined\<close>; \<open>StorageError\<close> is a
  rejected call to a record store.
\<close>

datatype js_error = UpstreamError | ParseError | SchemaError | TypeError | StorageError

datatype payload = NoPayload | CoursePayload course | CourseIdPayload nat

text \<open>\<open>res.status(status).json({success, message, ...})\<close>\<close>

datatype reply = Reply (status: nat) (success: bool) (message: string) (payload: payload)


section \<open>The AI generation adapter\<close>

text \<open>
  \<open>text.match(/\{[\s\S]*\}/)\<close>: the match starts at the first opening brace and, the
  star being greedy, ends at the last closing brace after it; there is no match when no
  closing brace follows the first opening brace.
\<close>

definition extract_json :: "string \<Rightarrow> string option" where
  "extract_json text =
     (let from_open = dropWhile (\<lambda>c. c \<noteq> CHR ''{'') text in
      if from_open = [] then None
      else
        let inner = rev (dropWhile (\<lambda>c. c \<noteq> CHR ''}'') (rev (tl from_open))) in
        if inner = [] then None else Some (CHR ''{'' # inner))"

text \<open>
  The span from the first opening brace to the closing brace that balances it, as the
  specification describes the extraction; a brace that is never closed is skipped.
\<close>

fun balanced_rest :: "nat \<Rightarrow> string \<Rightarrow> string option" where
  "balanced_rest depth [] = None"
| "balanced_rest depth (c # cs) =
     (if c = CHR ''}'' then
        (if depth = 0 then Some [c] else map_option ((#) c) (balanced_rest (depth - 1) cs))
      else if c = CHR ''{'' then map_option ((#) c) (balanced_rest (Suc depth) cs)
      else map_option ((#) c) (balanced_rest depth cs))"

fun first_balanced_span :: "string \<Rightarrow> string option" where
  "first_balanced_span [] = None"
| "first_balanced_span (c # cs) =
     (if c = CHR ''{'' then
        (case balanced_rest 0 cs of
           Some rest \<Rightarrow> Some (c # rest)
         | None \<Rightarrow> first_balanced_span cs)
      else first_balanced_span cs)"

text \<open>
  \<open>v.k\<close> for a value \<open>v\<close> that is neither \<open>null\<close> nor \<open>undefined\<close> (there the
  read throws a \<open>TypeError\<close>), and a name \<open>k\<close> that no prototype defines (\<open>title\<close>,
  \<open>description\<close>, \<open>outline\<close>, \<open>category\<close>, \<open>topics\<close>). An object parsed from JSON
  lists each of its names once.
\<close>

fun nullish :: "jsval \<Rightarrow> bool" where
  "nullish JUndefined = True"
| "nullish JNull = True"
| "nullish v = False"

fun js_prop :: "jsval \<Rightarrow> string \<Rightarrow> jsval" where
  "js_prop (JObj kvs) k = (case map_of kvs k of Some v \<Rightarrow> v | None \<Rightarrow> JUndefined)"
| "js_prop v k = JUndefined"

fun isArray :: "jsval \<Rightarrow> bool" where
  "isArray (JArr xs) = True"
| "isArray v = False"

fun elements :: "jsval \<Rightarrow> jsval list" where
  "elements (JArr xs) = xs"
| "elements v = []"

text \<open>The arrow function of \<open>courseData.outline.map\<close>, lines 194 to 198.\<close>

definition module_of :: "jsval \<Rightarrow> module" where
  "module_of m =
     \<lparr> m_title = js_prop m ''title'',
       m_description = js_prop m ''description'',
       m_topics = (if isArray (js_prop m ''topics'') then elements (js_prop m ''topics'') else []) \<rparr>"

fun map_modules :: "jsval list \<Rightarrow> js_error + module list" where
  "map_modules [] = Inr []"
| "map_modules (m # ms) =
     (if nullish m then Inl TypeError
      else (case map_modules ms of
              Inl e \<Rightarrow> Inl e
            | Inr rest \<Rightarrow> Inr (module_of m # rest)))"

text \<open>Lines 183 to 199: the validation of the parsed reply and the course built from it.\<close>

definition build_course :: "jsval \<Rightarrow> string \<Rightarrow> int \<Rightarrow> string \<Rightarrow> js_error + course" where
  "build_course courseData courseName duration difficulty =
     (if nullish courseData then Inl TypeError
      else if \<not> truthy (js_prop courseData ''title'') \<or>
              \<not> truthy (js_prop courseData ''description'') \<or>
              \<not> truthy (js_prop courseData ''outline'') \<or>
              \<not> isArray (js_prop courseData ''outline'')
      then Inl SchemaError
      else (case map_modules (elements (js_prop courseData ''outline'')) of
              Inl e \<Rightarrow> Inl e
            | Inr modules \<Rightarrow>
                Inr \<lparr> c_title = js_prop courseData ''title'',
                      c_description = js_prop courseData ''description'',
                      c_image = JUndefined,
                      c_price = JUndefined,
                      c_duration = JNum duration,
                      c_difficulty = JStr difficulty,
                      c_category = js_or (js_prop courseData ''category'')
                                         (JStr (determineCourseCategory courseName)),
                      c_outline = modules \<rparr>))"

text \<open>
  \<open>generateCourseWithGemini\<close>. The generative service is outside the repository: its
  answer to the prompt is the argument \<open>response\<close>, either a failure of the call or the
  raw text. \<open>JSON.parse\<close> is the argument \<open>parse\<close>, \<open>None\<close> where it throws.
\<close>

definition generateCourseWithGemini ::
  "(string \<Rightarrow> jsval option) \<Rightarrow> js_error + string \<Rightarrow> string \<Rightarrow> int \<Rightarrow> string \<Rightarrow>
   js_error + course" where
  "generateCourseWithGemini parse response courseName duration difficulty =
     (case response of
        Inl e \<Rightarrow> Inl e
      | Inr text \<Rightarrow>
          (case extract_json text of
             None \<Rightarrow> Inl ParseError
           | Some jsonStr \<Rightarrow>
               (case parse jsonStr of
                  None \<Rightarrow> Inl ParseError
                | Some courseData \<Rightarrow> build_course courseData courseName duration difficulty)))"


section \<open>The record stores\<close>

text \<open>
  The user, AI-course, course and lecture stores are reached through \<open>findById\<close> and
  \<open>create\<close> only. The records written so far are kept in the order of their writes.
  A store may reject a write (validation against its schema, a storage failure):
  \<open>accepts\<close> says, for the records present and the record to write, whether the write
  goes through. The identifier a new course record gets is its position in the log.
\<close>

record user =
  u_name :: string

record regular_course =
  rc_title :: jsval
  rc_description :: jsval
  rc_image :: jsval
  rc_price :: jsval
  rc_duration :: jsval
  rc_category :: jsval
  rc_createdBy :: string

record lecture =
  l_title :: jsval
  l_description :: jsval
  l_video :: string
  l_course :: nat

datatype stored =
    AICourseRec course string
  | CourseRec nat regular_course
  | LectureRec lecture

type_synonym db = "stored list"

record stores =
  findById :: "string option \<Rightarrow> js_error + user option"
  accepts :: "db \<Rightarrow> stored \<Rightarrow> bool"

definition store_create :: "stores \<Rightarrow> db \<Rightarrow> stored \<Rightarrow> db \<times> (js_error + unit)" where
  "store_create st db r =
     (if accepts st db r then (db @ [r], Inr ()) else (db, Inl StorageError))"

text \<open>\<open>AICourse.create({...course, createdBy: userId})\<close>\<close>

definition AICourse_create :: "stores \<Rightarrow> db \<Rightarrow> course \<Rightarrow> string \<Rightarrow> db \<times> (js_error + unit)" where
  "AICourse_create st db c createdBy = store_create st db (AICourseRec c createdBy)"

definition Courses_create :: "stores \<Rightarrow> db \<Rightarrow> regular_course \<Rightarrow> db \<times> (js_error + nat)" where
  "Courses_create st db rc =
     (case store_create st db (CourseRec (length db) rc) of
        (db', Inl e) \<Rightarrow> (db', Inl e)
      | (db', Inr u) \<Rightarrow> (db', Inr (length db)))"

definition Lecture_create :: "stores \<Rightarrow> db \<Rightarrow> lecture \<Rightarrow> db \<times> (js_error + unit)" where
  "Lecture_create st db l = store_create st db (LectureRec l)"

text \<open>
  The schema of the AI-course store, \<open>models/AICourse.js\<close>, marks \<open>title\<close>,
  \<open>description\<close>, \<open>duration\<close> and \<open>category\<close> as required, and the \<open>title\<close> and
  \<open>description\<close> of every module of the outline: \<open>AICourse.create\<close> throws for a
  document in which one of them is absent. The outline itself may be empty. The
  validation has further rules (the values of \<open>difficulty\<close>, the casts to the declared
  types); \<open>aiCourseSchema_valid\<close> is the part the required fields give.
\<close>

definition aiCourseSchema_valid :: "course \<Rightarrow> bool" where
  "aiCourseSchema_valid c =
     (\<not> nullish (c_title c) \<and>
      \<not> nullish (c_description c) \<and>
      \<not> nullish (c_duration c) \<and>
      \<not> nullish (c_category c) \<and>
      list_all (\<lambda>m. \<not> nullish (m_title m) \<and> \<not> nullish (m_description m)) (c_outline c))"

text \<open>
  The stores when nothing fails but that validation: an AI-course document is written
  exactly when it has its required fields, every other record is written.
\<close>

definition schema_accepts :: "db \<Rightarrow> stored \<Rightarrow> bool" where
  "schema_accepts db r =
     (case r of
        AICourseRec c createdBy \<Rightarrow> aiCourseSchema_valid c
      | CourseRec course_id rc \<Rightarrow> True
      | LectureRec l \<Rightarrow> True)"


section \<open>The controller\<close>

text \<open>
  The fields of the request body have the types the client sends: strings for the
  course name, the difficulty and the user identifier, an integer for the duration.
  A field that is absent is \<open>None\<close>. \<open>!field\<close> holds for an absent field, an empty
  string and the number zero; \<open>missing\<close> is \<open>!field\<close> for a string field.
\<close>

definition missing :: "string option \<Rightarrow> bool" where
  "missing v = (case v of None \<Rightarrow> True | Some s \<Rightarrow> s = [])"

definition mockCourse :: "string \<Rightarrow> int \<Rightarrow> string \<Rightarrow> course" where
  "mockCourse courseName duration difficulty =
     \<lparr> c_title = JStr courseName,
       c_description = JStr (''A comprehensive '' @ difficulty @ '' level course on '' @
                             courseName @ '' designed to be completed in '' @
                             text_of_int duration @ '' weeks.''),
       c_image = JUndefined,
       c_price = JUndefined,
       c_duration = JNum duration,
       c_difficulty = JStr difficulty,
       c_category = JStr (determineCourseCategory courseName),
       c_outline = generateMockOutline courseName duration difficulty \<rparr>"

definition generateCourse ::
  "stores \<Rightarrow> (string \<Rightarrow> jsval option) \<Rightarrow> js_error + string \<Rightarrow>
   string option \<Rightarrow> int option \<Rightarrow> string option \<Rightarrow> string option \<Rightarrow> reply" where
  "generateCourse st parse response courseName duration difficulty userId =
     (case (courseName, duration, difficulty) of
        (Some topic, Some weeks, Some level) \<Rightarrow>
          if topic = [] \<or> weeks = 0 \<or> level = [] then
            Reply 400 False ''Please provide all required fields'' NoPayload
          else
            (case findById st userId of
               Inl error \<Rightarrow> Reply 500 False ''Error generating course'' NoPayload
             | Inr None \<Rightarrow> Reply 404 False ''User not found'' NoPayload
             | Inr (Some user) \<Rightarrow>
                 (case generateCourseWithGemini parse response topic weeks level of
                    Inr generatedCourse \<Rightarrow>
                      Reply 200 True ''Data Generated'' (CoursePayload generatedCourse)
                  | Inl aiError \<Rightarrow>
                      Reply 200 True ''Data Generated''
                        (CoursePayload (mockCourse topic weeks level))))
      | _ \<Rightarrow> Reply 400 False ''Please provide all required fields'' NoPayload)"

text \<open>The loop of lines 111 to 118; a rejected write ends it, as the exception does.\<close>

definition lecture_of :: "nat \<Rightarrow> module \<Rightarrow> lecture" where
  "lecture_of course_id m =
     \<lparr> l_title = m_title m,
       l_description = m_description m,
       l_video = ''placeholder.mp4'',
       l_course = course_id \<rparr>"

fun create_lectures :: "stores \<Rightarrow> db \<Rightarrow> nat \<Rightarrow> module list \<Rightarrow> db \<times> (js_error + unit)" where
  "create_lectures st db course_id [] = (db, Inr ())"
| "create_lectures st db course_id (m # ms) =
     (case Lecture_create st db (lecture_of course_id m) of
        (db', Inl e) \<Rightarrow> (db', Inl e)
      | (db', Inr u) \<Rightarrow> create_lectures st db' course_id ms)"

definition regular_of :: "course \<Rightarrow> user \<Rightarrow> regular_course" where
  "regular_of c usr =
     \<lparr> rc_title = c_title c,
       rc_description = c_description c,
       rc_image = js_or (c_image c) (JStr ''default_course.jpg''),
       rc_price = js_or (c_price c) (JNum 0),
       rc_duration = c_duration c,
       rc_category = c_category c,
       rc_createdBy = u_name usr \<rparr>"

definition saveCourse :: "stores \<Rightarrow> db \<Rightarrow> course option \<Rightarrow> string option \<Rightarrow> db \<times> reply" where
  "saveCourse st db course userId =
     (case (course, userId) of
        (Some c, Some uid) \<Rightarrow>
          if uid = [] then
            (db, Reply 400 False ''Please provide all required fields'' NoPayload)
          else
            (case findById st (Some uid) of
               Inl error \<Rightarrow> (db, Reply 500 False ''Error saving course'' NoPayload)
             | Inr None \<Rightarrow> (db, Reply 404 False ''User not found'' NoPayload)
             | Inr (Some usr) \<Rightarrow>
                 (case AICourse_create st db c uid of
                    (db1, Inl error) \<Rightarrow>
                      (db1, Reply 500 False ''Error saving course'' NoPayload)
                  | (db1, Inr aiCourse) \<Rightarrow>
                      (case Courses_create st db1 (regular_of c usr) of
                         (db2, Inl error) \<Rightarrow>
                           (db2, Reply 500 False ''Error saving course'' NoPayload)
                       | (db2, Inr course_id) \<Rightarrow>
                           (case create_lectures st db2 course_id (c_outline c) of
                              (db3, Inl error) \<Rightarrow>
                                (db3, Reply 500 False ''Error saving course'' NoPayload)
                            | (db3, Inr u) \<Rightarrow>
                                (db3, Reply 201 True ''Course saved successfully''
                                        (CourseIdPayload course_id))))))
      | _ \<Rightarrow> (db, Reply 400 False ''Please provide all required fields'' NoPayload))"

text \<open>
  The writes of a successful save, in order: the AI-course record, the course record,
  one lecture per module.
\<close>

definition save_writes :: "db \<Rightarrow> course \<Rightarrow> string \<Rightarrow> user \<Rightarrow> stored list" where
  "save_writes db c uid usr =
     AICourseRec c uid #
     CourseRec (Suc (length db)) (regular_of c usr) #
     map (\<lambda>m. LectureRec (lecture_of (Suc (length db)) m)) (c_outline c)"

text \<open>Each record of a list is accepted by the stores, when written after the ones before it.\<close>

fun accepted_seq :: "stores \<Rightarrow> db \<Rightarrow> stored list \<Rightarrow> bool" where
  "accepted_seq st db [] = True"
| "accepted_seq st db (r # rs) = (accepts st db r \<and> accepted_seq st (db @ [r]) rs)"


section \<open>Properties of the helpers\<close>

lemma js_includes_iff_sublist: "js_includes s k \<longleftrightarrow> sublist k s"
  by (induction s) (auto simp: sublist_Cons_right)

lemma push_loop_eq: "push_loop f i n acc = acc @ map f [i..<nat n]"
proof (induction f i n acc rule: push_loop.induct)
  case (1 f i n acc)
  show ?case
  proof (cases "int i < n")
    case True
    then have "[i..<nat n] = i # [Suc i..<nat n]"
      by (simp add: upt_conv_Cons)
    with True "1" show ?thesis
      by (simp add: push_loop.simps [of f i n acc])
  next
    case False
    then show ?thesis
      by (simp add: push_loop.simps [of f i n acc])
  qed
qed

lemma length_generateTopics:
  "length (generateTopics courseName i difficulty) = nat (topicCount difficulty)"
  by (simp add: generateTopics_def push_loop_eq)

lemma length_generateMockOutline:
  "length (generateMockOutline courseName duration difficulty) = nat (moduleCount duration)"
  by (simp add: generateMockOutline_def push_loop_eq)

lemma nth_generateMockOutline:
  "i < nat (moduleCount duration) \<Longrightarrow>
   generateMockOutline courseName duration difficulty ! i = mock_module courseName difficulty i"
  by (simp add: generateMockOutline_def push_loop_eq)

lemma set_generateMockOutline:
  "set (generateMockOutline courseName duration difficulty) =
   mock_module courseName difficulty ` {0..<nat (moduleCount duration)}"
  by (simp add: generateMockOutline_def push_loop_eq)

section \<open>The outline generator on the allowed durations\<close>

lemma moduleCount_formula:
  "moduleCount d = max 3 \<lceil>real_of_int d / real_of_int (max 1 \<lfloor>real_of_int d / 4\<rfloor>)\<rceil>"
proof -
  have f: "\<lfloor>real_of_int d / 4\<rfloor> = d div 4"
    using floor_divide_of_int_eq [of d 4] by simp
  have c: "\<lceil>real_of_int a / real_of_int w\<rceil> = - ((- a) div w)" for a w :: int
    by (metis ceiling_def floor_divide_of_int_eq minus_divide_left of_int_minus)
  show ?thesis
    by (simp only: moduleCount_def weeksPerModule_def f c)
qed

lemma moduleCount_allowed:
  "d \<in> {1, 2, 4, 8, 12} \<Longrightarrow> moduleCount d = (if d \<in> {1, 2} then 3 else 4)"
  by (auto simp: moduleCount_def weeksPerModule_def)

lemma topics_of_module:
  "m \<in> set (generateMockOutline t d diff) \<Longrightarrow> length (m_topics m) = nat (topicCount diff)"
  by (auto simp: set_generateMockOutline mock_module_def length_generateTopics)

text \<open>
  Claim C2. For every topic, every duration among 1, 2, 4, 8 and 12 weeks and every
  difficulty among beginner, intermediate and advanced, \<open>generateMockOutline\<close> returns
  between 3 and 6 modules, their number being
  \<open>max(3, ceil(duration / max(1, floor(duration / 4))))\<close> computed over the reals, and
  every module has 4 topics for beginner, 5 for intermediate and 6 for advanced.
\<close>

theorem outline_shape:
  assumes "durationWeeks \<in> {1, 2, 4, 8, 12}"
    and "difficulty \<in> {''beginner'', ''intermediate'', ''advanced''}"
  shows "3 \<le> length (generateMockOutline topic durationWeeks difficulty) \<and>
         length (generateMockOutline topic durationWeeks difficulty) \<le> 6 \<and>
         int (length (generateMockOutline topic durationWeeks difficulty)) =
           max 3 \<lceil>real_of_int durationWeeks /
                    real_of_int (max 1 \<lfloor>real_of_int durationWeeks / 4\<rfloor>)\<rceil> \<and>
         (\<forall>m \<in> set (generateMockOutline topic durationWeeks difficulty).
            length (m_topics m) =
              (if difficulty = ''beginner'' then 4
               else if difficulty = ''intermediate'' then 5 else 6))"
proof -
  let ?ms = "generateMockOutline topic durationWeeks difficulty"
  have len: "length ?ms = nat (moduleCount durationWeeks)"
    by (rule length_generateMockOutline)
  have mc: "moduleCount durationWeeks = (if durationWeeks \<in> {1, 2} then 3 else 4)"
    using assms(1) by (rule moduleCount_allowed)
  have a: "3 \<le> length ?ms" "length ?ms \<le> 6"
    using len mc by (simp_all split: if_splits)
  have b: "int (length ?ms) = moduleCount durationWeeks"
    using len mc by (simp split: if_splits)
  have c: "\<forall>m \<in> set ?ms. length (m_topics m) =
              (if difficulty = ''beginner'' then 4
               else if difficulty = ''intermediate'' then 5 else 6)"
    by (auto simp: topics_of_module topicCount_def)
  show ?thesis
    using a b c by (simp only: moduleCount_formula [symmetric] simp_thms)
qed

theorem outline_shape_witness:
  "(8::int) \<in> {1, 2, 4, 8, 12} \<and>
   ''advanced'' \<in> {''beginner'', ''intermediate'', ''advanced''} \<and>
   length (generateMockOutline ''Algebra'' 8 ''advanced'') = 4 \<and>
   list_all (\<lambda>m. length (m_topics m) = 6) (generateMockOutline ''Algebra'' 8 ''advanced'')"
proof -
  have h1: "(8::int) \<in> {1, 2, 4, 8, 12}" by simp
  have h2: "''advanced'' \<in> {''beginner'', ''intermediate'', ''advanced''}" by simp
  have f: "\<lceil>(8::real) / real_of_int (max 1 \<lfloor>(8::real) / 4\<rfloor>)\<rceil> = 4"
    by simp
  from outline_shape [OF h1 h2, of "''Algebra''"] f
  show ?thesis
    by (simp add: list_all_iff)
qed

lemma text_of_nat_digit: "n < 10 \<Longrightarrow> text_of_nat n = [digit_char n]"
  by (simp add: text_of_nat_def digits_onto.simps [of n])

lemma getModuleTitle_not_mastering:
  "i < 4 \<Longrightarrow> getModuleTitle topic i \<noteq> advancedTitles ! 0 @ '' '' @ topic"
  by (simp add: getModuleTitle_def introTitles_def intermediateTitles_def advancedTitles_def)

text \<open>
  Claim C9. For every topic and difficulty and every duration among 1, 2, 4, 8 and 12
  weeks, the outline has exactly 3 modules (durations 1 and 2) or exactly 4 (durations
  4, 8 and 12), never 5 or 6. Every module index is below 4, the title of module \<open>i\<close>
  is built from \<open>getModuleTitle topic i\<close>, and that is never the template
  \<open>Mastering {topic}\<close>.
\<close>

theorem mastering_never_produced:
  assumes "durationWeeks \<in> {1, 2, 4, 8, 12}"
  shows "length (generateMockOutline topic durationWeeks difficulty) =
           (if durationWeeks \<in> {1, 2} then 3 else 4) \<and>
         length (generateMockOutline topic durationWeeks difficulty) \<noteq> 5 \<and>
         length (generateMockOutline topic durationWeeks difficulty) \<noteq> 6 \<and>
         (\<forall>i < length (generateMockOutline topic durationWeeks difficulty).
            i < 4 \<and>
            m_title (generateMockOutline topic durationWeeks difficulty ! i) =
              JStr (''Module '' @ text_of_nat (i + 1) @ '': '' @ getModuleTitle topic i) \<and>
            getModuleTitle topic i \<noteq> ''Mastering '' @ topic)"
proof -
  let ?ms = "generateMockOutline topic durationWeeks difficulty"
  have mc: "moduleCount durationWeeks = (if durationWeeks \<in> {1, 2} then 3 else 4)"
    using assms by (rule moduleCount_allowed)
  have len: "length ?ms = (if durationWeeks \<in> {1, 2} then 3 else 4)"
    by (simp add: length_generateMockOutline mc)
  have each: "i < 4 \<and>
            m_title (?ms ! i) =
              JStr (''Module '' @ text_of_nat (i + 1) @ '': '' @ getModuleTitle topic i) \<and>
            getModuleTitle topic i \<noteq> ''Mastering '' @ topic" if "i < length ?ms" for i
  proof -
    from that len have i4: "i < 4" by (simp split: if_splits)
    from that have "i < nat (moduleCount durationWeeks)"
      by (simp add: length_generateMockOutline)
    then have "?ms ! i = mock_module topic difficulty i"
      by (rule nth_generateMockOutline)
    moreover have "getModuleTitle topic i \<noteq> ''Mastering '' @ topic"
      using getModuleTitle_not_mastering [OF i4, of topic] by (simp add: advancedTitles_def)
    ultimately show ?thesis
      using i4 by (simp add: mock_module_def)
  qed
  from len each show ?thesis by (simp split: if_splits)
qed

theorem mastering_never_produced_witness:
  "(12::int) \<in> {1, 2, 4, 8, 12} \<and>
   length (generateMockOutline ''Algebra'' 12 ''beginner'') = 4 \<and>
   m_title (generateMockOutline ''Algebra'' 12 ''beginner'' ! 3) =
     JStr ''Module 4: Practical Applications of Algebra''"
proof -
  have h: "(12::int) \<in> {1, 2, 4, 8, 12}" by simp
  have s: "text_of_nat 4 = ''4''"
    by (simp add: text_of_nat_digit digit_char_def)
  from mastering_never_produced [OF h, of "''Algebra''" "''beginner''"]
  have "length (generateMockOutline ''Algebra'' 12 ''beginner'') = 4"
    and "m_title (generateMockOutline ''Algebra'' 12 ''beginner'' ! 3) =
      JStr (''Module '' @ text_of_nat (3 + 1) @ '': '' @ getModuleTitle ''Algebra'' 3)"
    by simp_all
  then show ?thesis
    using s by (simp add: getModuleTitle_def intermediateTitles_def)
qed

lemma category_example:
  "determineCourseCategory ''Machine Learning for Beginners'' = ''Data Science''"
  by (simp add: determineCourseCategory_def toLowerCase_def lower_char_def)

lemma outline_example:
  "generateMockOutline ''Machine Learning for Beginners'' 4 ''beginner'' =
   map (mock_module ''Machine Learning for Beginners'' ''beginner'') [0, 1, 2, 3]"
  by (simp add: generateMockOutline_def push_loop_eq moduleCount_def weeksPerModule_def
      upt_rec eval_nat_numeral)

text \<open>
  Claim C6 as stated fails: for the topic \<open>Machine Learning for Beginners\<close>, 4 weeks,
  beginner, the outline does not have 3 modules, and the title of its first module is
  not \<open>Introduction to Machine Learning for Beginners\<close>.
\<close>

theorem example_counterexample:
  "length (generateMockOutline ''Machine Learning for Beginners'' 4 ''beginner'') \<noteq> 3 \<and>
   m_title (generateMockOutline ''Machine Learning for Beginners'' 4 ''beginner'' ! 0) \<noteq>
     JStr ''Introduction to Machine Learning for Beginners''"
  by (simp add: outline_example mock_module_def)

text \<open>
  Claim C6, amended. For the topic \<open>Machine Learning for Beginners\<close>, 4 weeks,
  beginner, the category is \<open>Data Science\<close>, the outline has exactly 4 modules, every
  module has exactly 4 topics, and the title of the first module is
  \<open>Module 1: Introduction to Machine Learning for Beginners\<close>.
\<close>

theorem example_end_to_end:
  "determineCourseCategory ''Machine Learning for Beginners'' = ''Data Science'' \<and>
   length (generateMockOutline ''Machine Learning for Beginners'' 4 ''beginner'') = 4 \<and>
   map (\<lambda>m. length (m_topics m))
     (generateMockOutline ''Machine Learning for Beginners'' 4 ''beginner'') = [4, 4, 4, 4] \<and>
   m_title (generateMockOutline ''Machine Learning for Beginners'' 4 ''beginner'' ! 0) =
     JStr ''Module 1: Introduction to Machine Learning for Beginners''"
proof -
  have s: "text_of_nat 1 = ''1''"
    by (simp add: text_of_nat_digit digit_char_def)
  have t: "m_title (mock_module ''Machine Learning for Beginners'' ''beginner'' 0) =
     JStr ''Module 1: Introduction to Machine Learning for Beginners''"
    using s by (simp add: mock_module_def getModuleTitle_def introTitles_def)
  have n: "length (m_topics (mock_module ''Machine Learning for Beginners'' ''beginner'' i)) = 4"
    for i
    by (simp add: mock_module_def length_generateTopics topicCount_def)
  show ?thesis
    using category_example t n by (simp add: outline_example)
qed

section \<open>The category classifier: totality and order of the groups\<close>

lemma js_includes_lower_iff:
  "js_includes (toLowerCase t) k \<longleftrightarrow> (\<exists>u. sublist u t \<and> toLowerCase u = k)"
proof
  assume "js_includes (toLowerCase t) k"
  then obtain ps ss where eq: "map lower_char t = ps @ k @ ss"
    by (auto simp: js_includes_iff_sublist sublist_def toLowerCase_def)
  let ?u = "take (length k) (drop (length ps) t)"
  have "map lower_char ?u = take (length k) (drop (length ps) (map lower_char t))"
    by (simp add: take_map drop_map)
  also have "\<dots> = k"
    by (simp add: eq)
  finally have "toLowerCase ?u = k"
    by (simp add: toLowerCase_def)
  moreover have "sublist ?u t"
    by (meson sublist_take sublist_drop sublist_order.order_trans)
  ultimately show "\<exists>u. sublist u t \<and> toLowerCase u = k"
    by blast
next
  assume "\<exists>u. sublist u t \<and> toLowerCase u = k"
  then show "js_includes (toLowerCase t) k"
    by (auto simp: js_includes_iff_sublist toLowerCase_def intro: map_mono_sublist)
qed

lemma category_by_groups:
  "determineCourseCategory topic =
     (if matches_group topic programming_keywords then ''Programming''
      else if matches_group topic design_keywords then ''Design''
      else if matches_group topic business_keywords then ''Business''
      else if matches_group topic data_science_keywords then ''Data Science''
      else ''Other'')"
  by (simp add: determineCourseCategory_def Let_def matches_group_def
      programming_keywords_def design_keywords_def business_keywords_def
      data_science_keywords_def)

text \<open>
  Claim C7. \<open>determineCourseCategory\<close> is a function on all strings with a result
  among Programming, Design, Business, Data Science and Other. It tests the four
  keyword groups in that order on the lower-cased topic and the first group with a
  keyword occurring in it decides (a topic matching Programming and Design is
  Programming); the result is Other exactly when no keyword of any group occurs. By
  \<open>js_includes_lower_iff\<close> a keyword occurs in the lower-cased topic exactly when the
  topic has a substring whose lower-casing is the keyword.
\<close>

theorem classifier_total_ordered:
  "determineCourseCategory topic \<in>
     {''Programming'', ''Design'', ''Business'', ''Data Science'', ''Other''} \<and>
   determineCourseCategory topic =
     (if matches_group topic programming_keywords then ''Programming''
      else if matches_group topic design_keywords then ''Design''
      else if matches_group topic business_keywords then ''Business''
      else if matches_group topic data_science_keywords then ''Data Science''
      else ''Other'') \<and>
   (matches_group topic programming_keywords \<and> matches_group topic design_keywords \<longrightarrow>
      determineCourseCategory topic = ''Programming'') \<and>
   (determineCourseCategory topic = ''Other'' \<longleftrightarrow>
      (\<forall>k \<in> set (programming_keywords @ design_keywords @ business_keywords @
                  data_science_keywords).
         \<not> js_includes (toLowerCase topic) k))"
proof -
  have other: "determineCourseCategory topic = ''Other'' \<longleftrightarrow>
      \<not> matches_group topic programming_keywords \<and> \<not> matches_group topic design_keywords \<and>
      \<not> matches_group topic business_keywords \<and> \<not> matches_group topic data_science_keywords"
    by (simp add: category_by_groups)
  have all: "(\<forall>k \<in> set (programming_keywords @ design_keywords @ business_keywords @
                  data_science_keywords). \<not> js_includes (toLowerCase topic) k) \<longleftrightarrow>
      \<not> matches_group topic programming_keywords \<and> \<not> matches_group topic design_keywords \<and>
      \<not> matches_group topic business_keywords \<and> \<not> matches_group topic data_science_keywords"
    by (auto simp: matches_group_def list_ex_iff)
  have range: "determineCourseCategory topic \<in>
     {''Programming'', ''Design'', ''Business'', ''Data Science'', ''Other''}"
    by (simp add: category_by_groups)
  have first: "matches_group topic programming_keywords \<and> matches_group topic design_keywords \<longrightarrow>
      determineCourseCategory topic = ''Programming''"
    by (simp add: category_by_groups)
  show ?thesis
    using range first other all category_by_groups [of topic] by blast
qed

theorem classifier_total_ordered_witness:
  "matches_group ''Web Design'' programming_keywords \<and>
   matches_group ''Web Design'' design_keywords \<and>
   determineCourseCategory ''Web Design'' = ''Programming''"
proof -
  have l: "toLowerCase ''Web Design'' = ''web design''"
    by (simp add: toLowerCase_def lower_char_def)
  have p: "matches_group ''Web Design'' programming_keywords"
    by (simp add: matches_group_def programming_keywords_def l)
  have d: "matches_group ''Web Design'' design_keywords"
    by (simp add: matches_group_def design_keywords_def l)
  from classifier_total_ordered [of "''Web Design''"] p d show ?thesis
    by blast
qed

section \<open>Generating a course\<close>

text \<open>
  Claim C1. For a request with a non-empty course name, a non-zero duration, a
  non-empty difficulty and an owner the user store finds, if the adapter fails in any
  way, \<open>generateCourse\<close> still answers 200 with the course whose description is
  \<open>A comprehensive {difficulty} level course on {topic} designed to be completed in
  {duration} weeks.\<close>, whose category is \<open>determineCourseCategory topic\<close> and whose
  outline is \<open>generateMockOutline topic duration difficulty\<close>. The reply does not
  depend on the failure.
\<close>

theorem generate_fallback:
  assumes "topic \<noteq> []" and "weeks \<noteq> 0" and "level \<noteq> []"
    and "findById st userId = Inr (Some owner)"
    and "generateCourseWithGemini parse response topic weeks level = Inl failure"
  shows "generateCourse st parse response (Some topic) (Some weeks) (Some level) userId =
         Reply 200 True ''Data Generated''
           (CoursePayload
              \<lparr> c_title = JStr topic,
                c_description =
                  JStr (''A comprehensive '' @ level @ '' level course on '' @ topic @
                        '' designed to be completed in '' @ text_of_int weeks @ '' weeks.''),
                c_image = JUndefined,
                c_price = JUndefined,
                c_duration = JNum weeks,
                c_difficulty = JStr level,
                c_category = JStr (determineCourseCategory topic),
                c_outline = generateMockOutline topic weeks level \<rparr>)"
  using assms by (simp add: generateCourse_def mockCourse_def)

theorem generate_fallback_witness:
  "''Algebra'' \<noteq> [] \<and> (4::int) \<noteq> 0 \<and> ''beginner'' \<noteq> [] \<and>
   findById \<lparr> findById = (\<lambda>u. Inr (Some \<lparr> u_name = ''Ann'' \<rparr>)), accepts = (\<lambda>d r. True) \<rparr>
     (Some ''u1'') = Inr (Some \<lparr> u_name = ''Ann'' \<rparr>) \<and>
   generateCourseWithGemini (\<lambda>s. None) (Inr ''Sorry, no course today.'')
     ''Algebra'' 4 ''beginner'' = Inl ParseError \<and>
   status (generateCourse
     \<lparr> findById = (\<lambda>u. Inr (Some \<lparr> u_name = ''Ann'' \<rparr>)), accepts = (\<lambda>d r. True) \<rparr>
     (\<lambda>s. None) (Inr ''Sorry, no course today.'')
     (Some ''Algebra'') (Some 4) (Some ''beginner'') (Some ''u1'')) = 200 \<and>
   payload (generateCourse
     \<lparr> findById = (\<lambda>u. Inr (Some \<lparr> u_name = ''Ann'' \<rparr>)), accepts = (\<lambda>d r. True) \<rparr>
     (\<lambda>s. None) (Inr ''Sorry, no course today.'')
     (Some ''Algebra'') (Some 4) (Some ''beginner'') (Some ''u1'')) =
   CoursePayload
     \<lparr> c_title = JStr ''Algebra'',
       c_description = JStr (''A comprehensive beginner level course on Algebra '' @
                             ''designed to be completed in 4 weeks.''),
       c_image = JUndefined,
       c_price = JUndefined,
       c_duration = JNum 4,
       c_difficulty = JStr ''beginner'',
       c_category = JStr ''Other'',
       c_outline = generateMockOutline ''Algebra'' 4 ''beginner'' \<rparr>"
proof -
  let ?st = "\<lparr> findById = (\<lambda>u. Inr (Some \<lparr> u_name = ''Ann'' \<rparr>)), accepts = (\<lambda>d r. True) \<rparr>"
  have h1: "''Algebra'' \<noteq> []" and h2: "(4::int) \<noteq> 0" and h3: "''beginner'' \<noteq> []"
    by simp_all
  have h4: "findById ?st (Some ''u1'') = Inr (Some \<lparr> u_name = ''Ann'' \<rparr>)"
    by simp
  have h5: "generateCourseWithGemini (\<lambda>s. None) (Inr ''Sorry, no course today.'')
     ''Algebra'' 4 ''beginner'' = Inl ParseError"
    by (simp add: generateCourseWithGemini_def extract_json_def)
  have s: "text_of_int 4 = ''4''"
    by (simp add: text_of_int_def text_of_nat_digit digit_char_def)
  have c: "determineCourseCategory ''Algebra'' = ''Other''"
    by (simp add: determineCourseCategory_def toLowerCase_def lower_char_def)
  from generate_fallback [OF h1 h2 h3 h4 h5] h4 h5 s c show ?thesis
    by simp
qed

lemma generate_rejects_missing_fields:
  "missing courseName \<or> duration = None \<or> duration = Some 0 \<or> missing difficulty \<Longrightarrow>
   generateCourse st parse response courseName duration difficulty userId =
     Reply 400 False ''Please provide all required fields'' NoPayload"
  by (auto simp: generateCourse_def missing_def split: option.splits)

lemma generate_unknown_owner:
  "\<not> missing courseName \<Longrightarrow> duration = Some weeks \<Longrightarrow> weeks \<noteq> 0 \<Longrightarrow>
   \<not> missing difficulty \<Longrightarrow> findById st userId = Inr None \<Longrightarrow>
   generateCourse st parse response courseName duration difficulty userId =
     Reply 404 False ''User not found'' NoPayload"
  by (auto simp: generateCourse_def missing_def split: option.splits)

lemma save_rejects_missing_fields:
  "course = None \<or> missing userId \<Longrightarrow>
   saveCourse st db course userId =
     (db, Reply 400 False ''Please provide all required fields'' NoPayload)"
  by (auto simp: saveCourse_def missing_def split: option.splits)

lemma save_unknown_owner:
  "course = Some c \<Longrightarrow> \<not> missing userId \<Longrightarrow> findById st userId = Inr None \<Longrightarrow>
   saveCourse st db course userId = (db, Reply 404 False ''User not found'' NoPayload)"
  by (auto simp: saveCourse_def missing_def split: option.splits)

text \<open>
  Claim C8 says that both operations answer 400 when a required body field is missing,
  the owner identifier included. \<open>saveCourse\<close> does so; \<open>generateCourse\<close> does not test
  \<open>userId\<close>: for a request with course name, duration and difficulty but no \<open>userId\<close>
  it looks the absent identifier up and answers 404 when no user is found (500 when
  the lookup fails), never 400. The other parts of the claim hold:
  \<open>generate_rejects_missing_fields\<close>, \<open>generate_unknown_owner\<close>,
  \<open>save_rejects_missing_fields\<close> and \<open>save_unknown_owner\<close>, the last two with the
  records unchanged.
\<close>

theorem generate_missing_owner_not_400:
  "status (generateCourse st parse response
             (Some ''Algebra'') (Some 4) (Some ''beginner'') None) \<noteq> 400 \<and>
   status (generateCourse st parse response
             (Some ''Algebra'') (Some 4) (Some ''beginner'') None) =
     (case findById st None of Inl e \<Rightarrow> 500 | Inr None \<Rightarrow> 404 | Inr (Some u) \<Rightarrow> 200) \<and>
   saveCourse st db (Some c) None =
     (db, Reply 400 False ''Please provide all required fields'' NoPayload)"
  by (simp add: generateCourse_def saveCourse_def missing_def
      split: sum.splits option.splits)

section \<open>Saving a course\<close>

lemma create_lectures_accepted:
  "accepted_seq st db (map (\<lambda>m. LectureRec (lecture_of cid m)) ms) \<Longrightarrow>
   create_lectures st db cid ms =
     (db @ map (\<lambda>m. LectureRec (lecture_of cid m)) ms, Inr ())"
  by (induction ms arbitrary: db) (simp_all add: Lecture_create_def store_create_def)

lemma create_lectures_rejected:
  "j < length ms \<Longrightarrow>
   accepted_seq st db (map (\<lambda>m. LectureRec (lecture_of cid m)) (take j ms)) \<Longrightarrow>
   \<not> accepts st (db @ map (\<lambda>m. LectureRec (lecture_of cid m)) (take j ms))
        (LectureRec (lecture_of cid (ms ! j))) \<Longrightarrow>
   create_lectures st db cid ms =
     (db @ map (\<lambda>m. LectureRec (lecture_of cid m)) (take j ms), Inl StorageError)"
proof (induction ms arbitrary: db j)
  case Nil
  then show ?case by simp
next
  case (Cons m ms)
  show ?case
  proof (cases j)
    case 0
    with Cons.prems show ?thesis
      by (simp add: Lecture_create_def store_create_def)
  next
    case (Suc i)
    with Cons.prems have acc: "accepts st db (LectureRec (lecture_of cid m))"
      and i: "i < length ms"
      and rest: "accepted_seq st (db @ [LectureRec (lecture_of cid m)])
                   (map (\<lambda>m. LectureRec (lecture_of cid m)) (take i ms))"
      and rej: "\<not> accepts st ((db @ [LectureRec (lecture_of cid m)]) @
                   map (\<lambda>m. LectureRec (lecture_of cid m)) (take i ms))
                   (LectureRec (lecture_of cid (ms ! i)))"
      by simp_all
    from Cons.IH [OF i rest rej] acc Suc show ?thesis
      by (simp add: Lecture_create_def store_create_def)
  qed
qed

text \<open>
  Claim C3. For a course with N modules and an owner the user store finds, when the
  stores accept the writes, \<open>saveCourse\<close> writes exactly one AI-course record (the
  course and the owner's identifier), then exactly one course record (price 0 and image
  \<open>default_course.jpg\<close> where the course has none), then one lecture per module in the
  order of the modules, each with the identifier of the course record, and answers 201
  with that identifier.
\<close>

theorem save_sequence:
  assumes "findById st (Some uid) = Inr (Some owner)" and "uid \<noteq> []"
    and "accepted_seq st db (save_writes db c uid owner)"
  shows "saveCourse st db (Some c) (Some uid) =
           (db @ [AICourseRec c uid, CourseRec (Suc (length db)) (regular_of c owner)] @
              map (\<lambda>m. LectureRec (lecture_of (Suc (length db)) m)) (c_outline c),
            Reply 201 True ''Course saved successfully'' (CourseIdPayload (Suc (length db)))) \<and>
         rc_price (regular_of c owner) = (if truthy (c_price c) then c_price c else JNum 0) \<and>
         rc_image (regular_of c owner) =
           (if truthy (c_image c) then c_image c else JStr ''default_course.jpg'') \<and>
         list_all (\<lambda>m. l_course (lecture_of (Suc (length db)) m) = Suc (length db))
           (c_outline c)"
proof -
  let ?ai = "AICourseRec c uid"
  let ?rc = "CourseRec (Suc (length db)) (regular_of c owner)"
  from assms(3) have a1: "accepts st db ?ai"
    and a2: "accepts st (db @ [?ai]) ?rc"
    and a3: "accepted_seq st (db @ [?ai, ?rc])
               (map (\<lambda>m. LectureRec (lecture_of (Suc (length db)) m)) (c_outline c))"
    by (simp_all add: save_writes_def)
  have "saveCourse st db (Some c) (Some uid) =
           (db @ [?ai, ?rc] @
              map (\<lambda>m. LectureRec (lecture_of (Suc (length db)) m)) (c_outline c),
            Reply 201 True ''Course saved successfully'' (CourseIdPayload (Suc (length db))))"
    using assms(1,2) a1 a2 create_lectures_accepted [OF a3]
    by (simp add: saveCourse_def missing_def AICourse_create_def Courses_create_def
        store_create_def)
  then show ?thesis
    by (simp add: regular_of_def js_or_def lecture_of_def list_all_iff)
qed

text \<open>
  Claim C4. When the write number \<open>k\<close> (counted from 0) of a save is the first one a
  store rejects, the records written before it stay: the result holds the old records
  and the first \<open>k\<close> writes of the save, among them the AI-course record when
  \<open>k \<ge> 1\<close> and the course record when \<open>k \<ge> 2\<close> (a rejected lecture), and the answer
  is 500 without an identifier.
\<close>

theorem save_no_rollback:
  assumes "findById st (Some uid) = Inr (Some owner)" and "uid \<noteq> []"
    and "k < length (save_writes db c uid owner)"
    and "accepted_seq st db (take k (save_writes db c uid owner))"
    and "\<not> accepts st (db @ take k (save_writes db c uid owner))
           (save_writes db c uid owner ! k)"
  shows "saveCourse st db (Some c) (Some uid) =
           (db @ take k (save_writes db c uid owner),
            Reply 500 False ''Error saving course'' NoPayload) \<and>
         (1 \<le> k \<longrightarrow> AICourseRec c uid \<in> set (fst (saveCourse st db (Some c) (Some uid)))) \<and>
         (2 \<le> k \<longrightarrow> CourseRec (Suc (length db)) (regular_of c owner)
                       \<in> set (fst (saveCourse st db (Some c) (Some uid)))) \<and>
         set db \<subseteq> set (fst (saveCourse st db (Some c) (Some uid)))"
proof -
  let ?ai = "AICourseRec c uid"
  let ?rc = "CourseRec (Suc (length db)) (regular_of c owner)"
  let ?lec = "\<lambda>m. LectureRec (lecture_of (Suc (length db)) m)"
  let ?ws = "save_writes db c uid owner"
  have ws: "?ws = ?ai # ?rc # map ?lec (c_outline c)"
    by (simp add: save_writes_def)
  have main: "saveCourse st db (Some c) (Some uid) =
           (db @ take k ?ws, Reply 500 False ''Error saving course'' NoPayload)"
  proof (cases k)
    case 0
    with assms(5) have "\<not> accepts st db ?ai"
      by (simp add: ws)
    with assms(1,2) 0 show ?thesis
      by (simp add: saveCourse_def missing_def AICourse_create_def store_create_def)
  next
    case (Suc k1)
    note k = Suc
    with assms(4) have a1: "accepts st db ?ai"
      by (simp add: ws)
    show ?thesis
    proof (cases k1)
      case 0
      with k assms(5) have "\<not> accepts st (db @ [?ai]) ?rc"
        by (simp add: ws)
      with assms(1,2) a1 k 0 show ?thesis
        by (simp add: saveCourse_def missing_def AICourse_create_def Courses_create_def
            store_create_def ws)
    next
      case (Suc j)
      with k assms(3) have j: "j < length (c_outline c)"
        by (simp add: ws)
      from Suc k assms(4) have a2: "accepts st (db @ [?ai]) ?rc"
        and a3: "accepted_seq st (db @ [?ai, ?rc]) (map ?lec (take j (c_outline c)))"
        by (simp_all add: ws take_map)
      from Suc k assms(5) j have rej:
        "\<not> accepts st ((db @ [?ai, ?rc]) @ map ?lec (take j (c_outline c)))
             (LectureRec (lecture_of (Suc (length db)) (c_outline c ! j)))"
        by (simp add: ws take_map)
      from create_lectures_rejected [OF j a3 rej] assms(1,2) a1 a2 Suc k show ?thesis
        by (simp add: saveCourse_def missing_def AICourse_create_def Courses_create_def
            store_create_def ws take_map)
    qed
  qed
  have p1: "1 \<le> k \<Longrightarrow> ?ai \<in> set (take k ?ws)"
    by (cases k) (simp_all add: ws)
  have p2: "2 \<le> k \<Longrightarrow> ?rc \<in> set (take k ?ws)"
    by (cases k; cases "k - 1") (simp_all add: ws)
  from main p1 p2 show ?thesis
    by auto
qed

text \<open>
  Claim C10, amended. \<open>saveCourse\<close> itself does not look at the shape of the course
  it is given; what is checked is checked by the stores. For an owner the user store
  finds and a course whose outline is empty: when the AI-course store and the course
  store accept their writes, \<open>saveCourse\<close> writes the AI-course record and the course
  record, no lecture, and answers 201 with the identifier of the course record; when
  the AI-course store rejects the document nothing is written, when the course store
  rejects its record the AI-course record stays, and the answer is 500 in both cases.
\<close>

theorem save_empty_outline:
  assumes "findById st (Some uid) = Inr (Some owner)" and "uid \<noteq> []"
    and "c_outline c = []"
  shows "saveCourse st db (Some c) (Some uid) =
           (if accepts st db (AICourseRec c uid) then
              if accepts st (db @ [AICourseRec c uid])
                   (CourseRec (Suc (length db)) (regular_of c owner))
              then
                (db @ [AICourseRec c uid, CourseRec (Suc (length db)) (regular_of c owner)],
                 Reply 201 True ''Course saved successfully''
                   (CourseIdPayload (Suc (length db))))
              else
                (db @ [AICourseRec c uid], Reply 500 False ''Error saving course'' NoPayload)
            else (db, Reply 500 False ''Error saving course'' NoPayload))"
  using assms
  by (simp add: saveCourse_def AICourse_create_def Courses_create_def store_create_def)

theorem save_sequence_witness:
  "(let st = \<lparr> findById = (\<lambda>u. Inr (Some \<lparr> u_name = ''Ann'' \<rparr>)), accepts = (\<lambda>d r. True) \<rparr>;
        c = \<lparr> c_title = JStr ''Algebra'', c_description = JStr ''Groups and rings'',
              c_image = JUndefined, c_price = JUndefined, c_duration = JNum 4,
              c_difficulty = JStr ''beginner'', c_category = JStr ''Other'',
              c_outline =
                [\<lparr> m_title = JStr ''Groups'', m_description = JStr ''Axioms'', m_topics = [] \<rparr>,
                 \<lparr> m_title = JStr ''Rings'', m_description = JStr ''Ideals'', m_topics = [] \<rparr>] \<rparr>
    in findById st (Some ''u1'') = Inr (Some \<lparr> u_name = ''Ann'' \<rparr>) \<and>
       ''u1'' \<noteq> [] \<and>
       accepted_seq st [] (save_writes [] c ''u1'' \<lparr> u_name = ''Ann'' \<rparr>) \<and>
       saveCourse st [] (Some c) (Some ''u1'') =
         ([AICourseRec c ''u1'',
           CourseRec 1 \<lparr> rc_title = JStr ''Algebra'', rc_description = JStr ''Groups and rings'',
                        rc_image = JStr ''default_course.jpg'', rc_price = JNum 0,
                        rc_duration = JNum 4, rc_category = JStr ''Other'',
                        rc_createdBy = ''Ann'' \<rparr>,
           LectureRec \<lparr> l_title = JStr ''Groups'', l_description = JStr ''Axioms'',
                        l_video = ''placeholder.mp4'', l_course = 1 \<rparr>,
           LectureRec \<lparr> l_title = JStr ''Rings'', l_description = JStr ''Ideals'',
                        l_video = ''placeholder.mp4'', l_course = 1 \<rparr>],
          Reply 201 True ''Course saved successfully'' (CourseIdPayload 1)))"
proof -
  let ?st = "\<lparr> findById = (\<lambda>u. Inr (Some \<lparr> u_name = ''Ann'' \<rparr>)), accepts = (\<lambda>d r. True) \<rparr>"
  let ?c = "\<lparr> c_title = JStr ''Algebra'', c_description = JStr ''Groups and rings'',
              c_image = JUndefined, c_price = JUndefined, c_duration = JNum 4,
              c_difficulty = JStr ''beginner'', c_category = JStr ''Other'',
              c_outline =
                [\<lparr> m_title = JStr ''Groups'', m_description = JStr ''Axioms'', m_topics = [] \<rparr>,
                 \<lparr> m_title = JStr ''Rings'', m_description = JStr ''Ideals'', m_topics = [] \<rparr>] \<rparr>"
  have h1: "findById ?st (Some ''u1'') = Inr (Some \<lparr> u_name = ''Ann'' \<rparr>)"
    by simp
  have h2: "''u1'' \<noteq> []"
    by simp
  have h3: "accepted_seq ?st [] (save_writes [] ?c ''u1'' \<lparr> u_name = ''Ann'' \<rparr>)"
    by (simp add: save_writes_def)
  from save_sequence [OF h1 h2 h3] h3 show ?thesis
    by (simp add: Let_def regular_of_def lecture_of_def js_or_def)
qed

theorem save_no_rollback_witness:
  "(let st = \<lparr> findById = (\<lambda>u. Inr (Some \<lparr> u_name = ''Ann'' \<rparr>)),
               accepts = (\<lambda>d r. length d < 3) \<rparr>;
        c = \<lparr> c_title = JStr ''Algebra'', c_description = JStr ''Groups and rings'',
              c_image = JUndefined, c_price = JUndefined, c_duration = JNum 4,
              c_difficulty = JStr ''beginner'', c_category = JStr ''Other'',
              c_outline =
                [\<lparr> m_title = JStr ''Groups'', m_description = JStr ''Axioms'', m_topics = [] \<rparr>,
                 \<lparr> m_title = JStr ''Rings'', m_description = JStr ''Ideals'', m_topics = [] \<rparr>] \<rparr>;
        ws = save_writes [] c ''u1'' \<lparr> u_name = ''Ann'' \<rparr>
    in findById st (Some ''u1'') = Inr (Some \<lparr> u_name = ''Ann'' \<rparr>) \<and>
       ''u1'' \<noteq> [] \<and>
       3 < length ws \<and>
       accepted_seq st [] (take 3 ws) \<and>
       \<not> accepts st ([] @ take 3 ws) (ws ! 3) \<and>
       saveCourse st [] (Some c) (Some ''u1'') =
         ([AICourseRec c ''u1'',
           CourseRec 1 \<lparr> rc_title = JStr ''Algebra'', rc_description = JStr ''Groups and rings'',
                        rc_image = JStr ''default_course.jpg'', rc_price = JNum 0,
                        rc_duration = JNum 4, rc_category = JStr ''Other'',
                        rc_createdBy = ''Ann'' \<rparr>,
           LectureRec \<lparr> l_title = JStr ''Groups'', l_description = JStr ''Axioms'',
                        l_video = ''placeholder.mp4'', l_course = 1 \<rparr>],
          Reply 500 False ''Error saving course'' NoPayload))"
proof -
  let ?st = "\<lparr> findById = (\<lambda>u. Inr (Some \<lparr> u_name = ''Ann'' \<rparr>)),
               accepts = (\<lambda>d r. length d < 3) \<rparr>"
  let ?c = "\<lparr> c_title = JStr ''Algebra'', c_description = JStr ''Groups and rings'',
              c_image = JUndefined, c_price = JUndefined, c_duration = JNum 4,
              c_difficulty = JStr ''beginner'', c_category = JStr ''Other'',
              c_outline =
                [\<lparr> m_title = JStr ''Groups'', m_description = JStr ''Axioms'', m_topics = [] \<rparr>,
                 \<lparr> m_title = JStr ''Rings'', m_description = JStr ''Ideals'', m_topics = [] \<rparr>] \<rparr>"
  let ?ws = "save_writes [] ?c ''u1'' \<lparr> u_name = ''Ann'' \<rparr>"
  have h1: "findById ?st (Some ''u1'') = Inr (Some \<lparr> u_name = ''Ann'' \<rparr>)"
    by simp
  have h2: "''u1'' \<noteq> []"
    by simp
  have h3: "3 < length ?ws"
    by (simp add: save_writes_def)
  have h4: "accepted_seq ?st [] (take 3 ?ws)"
    by (simp add: save_writes_def)
  have h5: "\<not> accepts ?st ([] @ take 3 ?ws) (?ws ! 3)"
    by (simp add: save_writes_def)
  have t: "take 3 ?ws =
         [AICourseRec ?c ''u1'',
           CourseRec 1 \<lparr> rc_title = JStr ''Algebra'', rc_description = JStr ''Groups and rings'',
                        rc_image = JStr ''default_course.jpg'', rc_price = JNum 0,
                        rc_duration = JNum 4, rc_category = JStr ''Other'',
                        rc_createdBy = ''Ann'' \<rparr>,
           LectureRec \<lparr> l_title = JStr ''Groups'', l_description = JStr ''Axioms'',
                        l_video = ''placeholder.mp4'', l_course = 1 \<rparr>]"
    by (simp add: save_writes_def regular_of_def lecture_of_def js_or_def)
  from save_no_rollback [OF h1 h2 h3 h4 h5] have
    "saveCourse ?st [] (Some ?c) (Some ''u1'') =
       ([] @ take 3 ?ws, Reply 500 False ''Error saving course'' NoPayload)"
    by blast
  with t h1 h2 h3 h4 h5 show ?thesis
    unfolding Let_def by (simp only: append_Nil simp_thms)
qed

theorem save_empty_outline_witness:
  "(let st = \<lparr> findById = (\<lambda>u. Inr (Some \<lparr> u_name = ''Ann'' \<rparr>)),
               accepts = schema_accepts \<rparr>;
        c = \<lparr> c_title = JStr ''Algebra'', c_description = JStr ''Groups and rings'',
              c_image = JUndefined, c_price = JUndefined, c_duration = JNum 4,
              c_difficulty = JStr ''beginner'', c_category = JStr ''Other'',
              c_outline = [] \<rparr>
    in findById st (Some ''u1'') = Inr (Some \<lparr> u_name = ''Ann'' \<rparr>) \<and>
       ''u1'' \<noteq> [] \<and>
       c_outline c = [] \<and>
       accepts st [] (AICourseRec c ''u1'') \<and>
       accepts st ([] @ [AICourseRec c ''u1''])
         (CourseRec (Suc (length ([] :: db))) (regular_of c \<lparr> u_name = ''Ann'' \<rparr>)) \<and>
       saveCourse st [] (Some c) (Some ''u1'') =
         ([AICourseRec c ''u1'',
           CourseRec 1 \<lparr> rc_title = JStr ''Algebra'', rc_description = JStr ''Groups and rings'',
                        rc_image = JStr ''default_course.jpg'', rc_price = JNum 0,
                        rc_duration = JNum 4, rc_category = JStr ''Other'',
                        rc_createdBy = ''Ann'' \<rparr>],
          Reply 201 True ''Course saved successfully'' (CourseIdPayload 1)))"
proof -
  let ?st = "\<lparr> findById = (\<lambda>u. Inr (Some \<lparr> u_name = ''Ann'' \<rparr>)),
               accepts = schema_accepts \<rparr>"
  let ?c = "\<lparr> c_title = JStr ''Algebra'', c_description = JStr ''Groups and rings'',
              c_image = JUndefined, c_price = JUndefined, c_duration = JNum 4,
              c_difficulty = JStr ''beginner'', c_category = JStr ''Other'',
              c_outline = [] \<rparr>"
  have h1: "findById ?st (Some ''u1'') = Inr (Some \<lparr> u_name = ''Ann'' \<rparr>)"
    by simp
  have h2: "''u1'' \<noteq> []"
    by simp
  have h3: "c_outline ?c = []"
    by simp
  have h4: "accepts ?st [] (AICourseRec ?c ''u1'')"
    by (simp add: schema_accepts_def aiCourseSchema_valid_def)
  have h5: "accepts ?st ([] @ [AICourseRec ?c ''u1''])
         (CourseRec (Suc (length ([] :: db))) (regular_of ?c \<lparr> u_name = ''Ann'' \<rparr>))"
    by (simp add: schema_accepts_def)
  from save_empty_outline [OF h1 h2 h3, of "[]"] h4 h5
  have "saveCourse ?st [] (Some ?c) (Some ''u1'') =
          ([] @ [AICourseRec ?c ''u1'',
                 CourseRec (Suc (length ([] :: db))) (regular_of ?c \<lparr> u_name = ''Ann'' \<rparr>)],
           Reply 201 True ''Course saved successfully''
             (CourseIdPayload (Suc (length ([] :: db)))))"
    by (simp only: if_True)
  with h1 h4 h5 show ?thesis
    by (simp add: Let_def regular_of_def js_or_def)
qed

text \<open>
  Claim C10 as stated fails: it has the save succeed for any course object with an
  empty outline. The course object \<open>{outline: []}\<close> has none of the fields the
  AI-course schema requires: with an owner that exists and stores in which nothing
  fails but that validation, \<open>AICourse.create\<close> throws, nothing is written and the
  answer is 500, not 201.
\<close>

theorem save_empty_outline_counterexample:
  "(let st = \<lparr> findById = (\<lambda>u. Inr (Some \<lparr> u_name = ''Ann'' \<rparr>)),
               accepts = schema_accepts \<rparr>;
        c = \<lparr> c_title = JUndefined, c_description = JUndefined, c_image = JUndefined,
              c_price = JUndefined, c_duration = JUndefined, c_difficulty = JUndefined,
              c_category = JUndefined, c_outline = [] \<rparr>
    in findById st (Some ''u1'') = Inr (Some \<lparr> u_name = ''Ann'' \<rparr>) \<and>
       c_outline c = [] \<and>
       saveCourse st [] (Some c) (Some ''u1'') =
         ([], Reply 500 False ''Error saving course'' NoPayload))"
  by (simp add: Let_def saveCourse_def AICourse_create_def store_create_def
      schema_accepts_def aiCourseSchema_valid_def)

section \<open>The AI generation adapter: extraction and validation\<close>

lemma extract_json_no_open: "CHR ''{'' \<notin> set text \<Longrightarrow> extract_json text = None"
proof -
  assume "CHR ''{'' \<notin> set text"
  then have "dropWhile (\<lambda>c. c \<noteq> CHR ''{'') text = []"
    by (auto simp: dropWhile_eq_Nil_conv)
  then show ?thesis
    by (simp add: extract_json_def)
qed

lemma dropWhile_upto:
  "a \<notin> set xs \<Longrightarrow> dropWhile (\<lambda>c. c \<noteq> a) (xs @ a # ys) = a # ys"
  by (induction xs) auto

lemma extract_json_span:
  assumes "CHR ''{'' \<notin> set pre" and "CHR ''}'' \<notin> set post"
  shows "extract_json (pre @ ''{'' @ mid @ ''}'' @ post) = Some (''{'' @ mid @ ''}'')"
proof -
  have d: "dropWhile (\<lambda>c. c \<noteq> CHR ''{'') (pre @ ''{'' @ mid @ ''}'' @ post) =
           ''{'' @ mid @ ''}'' @ post"
    using assms(1) by (simp add: dropWhile_upto)
  have r: "dropWhile (\<lambda>c. c \<noteq> CHR ''}'') (rev (mid @ ''}'' @ post)) = CHR ''}'' # rev mid"
    using assms(2) by (simp add: dropWhile_upto)
  show ?thesis
    unfolding extract_json_def d using r by simp
qed

lemma extract_json_Some:
  assumes "extract_json text = Some s"
  shows "\<exists>pre mid post. text = pre @ ''{'' @ mid @ ''}'' @ post \<and>
           CHR ''{'' \<notin> set pre \<and> CHR ''}'' \<notin> set post \<and> s = ''{'' @ mid @ ''}''"
proof -
  let ?P = "\<lambda>c. c \<noteq> CHR ''{''" and ?Q = "\<lambda>c. c \<noteq> CHR ''}''"
  let ?pre = "takeWhile ?P text" and ?from = "dropWhile ?P text"
  from assms have ne: "?from \<noteq> []"
    by (auto simp: extract_json_def Let_def split: if_splits)
  then have hdf: "hd ?from = CHR ''{''"
    using hd_dropWhile [of "?P" "text"] by simp
  let ?r = "tl ?from"
  have fr: "?from = CHR ''{'' # ?r"
    using ne hdf by (cases ?from) simp_all
  let ?inner = "rev (dropWhile ?Q (rev ?r))" and ?post = "rev (takeWhile ?Q (rev ?r))"
  from assms ne have inner: "?inner \<noteq> []" and s: "s = CHR ''{'' # ?inner"
    by (auto simp: extract_json_def Let_def split: if_splits)
  have sp: "?r = ?inner @ ?post"
    by (metis rev_append rev_rev_ident takeWhile_dropWhile_id)
  from inner have "dropWhile ?Q (rev ?r) \<noteq> []"
    by simp
  then have "hd (dropWhile ?Q (rev ?r)) = CHR ''}''"
    using hd_dropWhile [of "?Q" "rev ?r"] by simp
  then have "last ?inner = CHR ''}''"
    using inner by (simp add: last_rev)
  then have "?inner = butlast ?inner @ ''}''"
    using inner by (metis append_butlast_last_id)
  then obtain mid where mid: "?inner = mid @ ''}''"
    by blast
  have "text = ?pre @ ?from"
    by simp
  then have "text = ?pre @ ''{'' @ mid @ ''}'' @ ?post"
    using fr sp mid by (metis append_Cons append_Nil append_assoc)
  moreover have "CHR ''{'' \<notin> set ?pre"
    by (auto dest: set_takeWhileD)
  moreover have "CHR ''}'' \<notin> set ?post"
    by (auto dest: set_takeWhileD)
  moreover have "s = ''{'' @ mid @ ''}''"
    using s mid by simp
  ultimately show ?thesis
    by blast
qed

lemma map_modules_no_null:
  "list_all (\<lambda>m. \<not> nullish m) ms \<Longrightarrow> map_modules ms = Inr (map module_of ms)"
  by (induction ms) simp_all

lemma build_course_schema_error:
  "\<not> truthy (js_prop (JObj props) ''title'') \<or>
   \<not> truthy (js_prop (JObj props) ''description'') \<or>
   \<not> isArray (js_prop (JObj props) ''outline'') \<Longrightarrow>
   build_course (JObj props) topic weeks level = Inl SchemaError"
  by (auto simp: build_course_def)

lemma build_course_ok:
  assumes "truthy (js_prop (JObj props) ''title'')"
    and "truthy (js_prop (JObj props) ''description'')"
    and "js_prop (JObj props) ''outline'' = JArr ms"
    and "list_all (\<lambda>m. \<not> nullish m) ms"
  shows "build_course (JObj props) topic weeks level =
         Inr \<lparr> c_title = js_prop (JObj props) ''title'',
               c_description = js_prop (JObj props) ''description'',
               c_image = JUndefined,
               c_price = JUndefined,
               c_duration = JNum weeks,
               c_difficulty = JStr level,
               c_category =
                 (if truthy (js_prop (JObj props) ''category'')
                  then js_prop (JObj props) ''category''
                  else JStr (determineCourseCategory topic)),
               c_outline = map module_of ms \<rparr>"
  using assms map_modules_no_null [OF assms(4)]
  by (simp add: build_course_def js_or_def del: js_prop.simps)

text \<open>
  Claim C5, amended. The adapter takes the span from the first opening brace of the
  reply to the last closing brace after it, whatever lies between, and parses it. It
  fails with \<open>ParseError\<close> when the reply has no such span (in particular when it has
  no opening brace) or the span does not parse. When the span parses to an object, it
  fails with \<open>SchemaError\<close> if \<open>title\<close> or \<open>description\<close> is absent or empty, or
  \<open>outline\<close> is absent or not an array; otherwise, no element of \<open>outline\<close> being
  \<open>null\<close>, it returns the course built from the object, an empty outline included.
\<close>

theorem adapter_contract:
  assumes "CHR ''{'' \<notin> set pre" and "CHR ''}'' \<notin> set post"
  shows
   "(extract_json text = None \<longrightarrow>
       generateCourseWithGemini parse (Inr text) topic weeks level = Inl ParseError) \<and>
    (CHR ''{'' \<notin> set text \<longrightarrow> extract_json text = None) \<and>
    extract_json (pre @ ''{'' @ mid @ ''}'' @ post) = Some (''{'' @ mid @ ''}'') \<and>
    (parse (''{'' @ mid @ ''}'') = None \<longrightarrow>
       generateCourseWithGemini parse (Inr (pre @ ''{'' @ mid @ ''}'' @ post)) topic weeks level =
         Inl ParseError) \<and>
    (parse (''{'' @ mid @ ''}'') = Some (JObj props) \<and>
     (\<not> truthy (js_prop (JObj props) ''title'') \<or>
      \<not> truthy (js_prop (JObj props) ''description'') \<or>
      \<not> isArray (js_prop (JObj props) ''outline'')) \<longrightarrow>
       generateCourseWithGemini parse (Inr (pre @ ''{'' @ mid @ ''}'' @ post)) topic weeks level =
         Inl SchemaError) \<and>
    (parse (''{'' @ mid @ ''}'') = Some (JObj props) \<and>
     truthy (js_prop (JObj props) ''title'') \<and>
     truthy (js_prop (JObj props) ''description'') \<and>
     js_prop (JObj props) ''outline'' = JArr ms \<and>
     list_all (\<lambda>m. \<not> nullish m) ms \<longrightarrow>
       generateCourseWithGemini parse (Inr (pre @ ''{'' @ mid @ ''}'' @ post)) topic weeks level =
         Inr \<lparr> c_title = js_prop (JObj props) ''title'',
               c_description = js_prop (JObj props) ''description'',
               c_image = JUndefined,
               c_price = JUndefined,
               c_duration = JNum weeks,
               c_difficulty = JStr level,
               c_category =
                 (if truthy (js_prop (JObj props) ''category'')
                  then js_prop (JObj props) ''category''
                  else JStr (determineCourseCategory topic)),
               c_outline = map module_of ms \<rparr>)"
proof -
  note span = extract_json_span [OF assms, of mid]
  have a: "extract_json text = None \<longrightarrow>
       generateCourseWithGemini parse (Inr text) topic weeks level = Inl ParseError"
    by (simp add: generateCourseWithGemini_def)
  have b: "CHR ''{'' \<notin> set text \<longrightarrow> extract_json text = None"
    by (simp add: extract_json_no_open)
  have c: "parse (''{'' @ mid @ ''}'') = None \<longrightarrow>
       generateCourseWithGemini parse (Inr (pre @ ''{'' @ mid @ ''}'' @ post)) topic weeks level =
         Inl ParseError"
    using span by (simp add: generateCourseWithGemini_def)
  have g: "parse (''{'' @ mid @ ''}'') = Some (JObj props) \<Longrightarrow>
       generateCourseWithGemini parse (Inr (pre @ ''{'' @ mid @ ''}'' @ post)) topic weeks level =
         build_course (JObj props) topic weeks level"
    using span by (simp add: generateCourseWithGemini_def)
  show ?thesis
    using a b c span g build_course_schema_error [of props topic weeks level]
      build_course_ok [of props ms topic weeks level]
    by (intro conjI impI) (simp_all del: js_prop.simps)
qed

theorem adapter_contract_witness:
  "(let mid = ''\"title\":\"T\",\"description\":\"D\",\"outline\":[{\"title\":\"M\"}]'';
        courseData = JObj [(''title'', JStr ''T''), (''description'', JStr ''D''),
                           (''outline'', JArr [JObj [(''title'', JStr ''M'')]])];
        parse = map_of [(''{'' @ mid @ ''}'', courseData)]
    in CHR ''{'' \<notin> set ''Here is your course: '' \<and>
       CHR ''}'' \<notin> set '' Enjoy!'' \<and>
       parse (''{'' @ mid @ ''}'') = Some courseData \<and>
       generateCourseWithGemini parse
         (Inr (''Here is your course: '' @ ''{'' @ mid @ ''}'' @ '' Enjoy!''))
         ''Algebra'' 4 ''beginner'' =
       Inr \<lparr> c_title = JStr ''T'', c_description = JStr ''D'', c_image = JUndefined,
             c_price = JUndefined, c_duration = JNum 4, c_difficulty = JStr ''beginner'',
             c_category = JStr ''Other'',
             c_outline = [\<lparr> m_title = JStr ''M'', m_description = JUndefined,
                             m_topics = [] \<rparr>] \<rparr>)"
proof -
  let ?mid = "''\"title\":\"T\",\"description\":\"D\",\"outline\":[{\"title\":\"M\"}]''"
  let ?props = "[(''title'', JStr ''T''), (''description'', JStr ''D''),
                 (''outline'', JArr [JObj [(''title'', JStr ''M'')]])]"
  let ?parse = "map_of [(''{'' @ ?mid @ ''}'', JObj ?props)]"
  have h1: "CHR ''{'' \<notin> set ''Here is your course: ''"
    by simp
  have h2: "CHR ''}'' \<notin> set '' Enjoy!''"
    by simp
  have p: "?parse (''{'' @ ?mid @ ''}'') = Some (JObj ?props)"
    by simp
  have t: "truthy (js_prop (JObj ?props) ''title'')"
    "truthy (js_prop (JObj ?props) ''description'')"
    "js_prop (JObj ?props) ''outline'' = JArr [JObj [(''title'', JStr ''M'')]]"
    "list_all (\<lambda>m. \<not> nullish m) [JObj [(''title'', JStr ''M'')]]"
    by simp_all
  have c: "determineCourseCategory ''Algebra'' = ''Other''"
    by (simp add: determineCourseCategory_def toLowerCase_def lower_char_def)
  have v: "js_prop (JObj ?props) ''title'' = JStr ''T''"
    "js_prop (JObj ?props) ''description'' = JStr ''D''"
    "js_prop (JObj ?props) ''category'' = JUndefined"
    "map module_of [JObj [(''title'', JStr ''M'')]] =
       [\<lparr> m_title = JStr ''M'', m_description = JUndefined, m_topics = [] \<rparr>]"
    by (simp_all add: module_of_def)
  from adapter_contract [OF h1 h2, where mid = ?mid and parse = ?parse and props = ?props
      and ms = "[JObj [(''title'', JStr ''M'')]]" and topic = "''Algebra''" and weeks = 4
      and level = "''beginner''"] p t
  have "generateCourseWithGemini ?parse
         (Inr (''Here is your course: '' @ ''{'' @ ?mid @ ''}'' @ '' Enjoy!''))
         ''Algebra'' 4 ''beginner'' =
       Inr \<lparr> c_title = js_prop (JObj ?props) ''title'',
               c_description = js_prop (JObj ?props) ''description'',
               c_image = JUndefined,
               c_price = JUndefined,
               c_duration = JNum 4,
               c_difficulty = JStr ''beginner'',
               c_category =
                 (if truthy (js_prop (JObj ?props) ''category'')
                  then js_prop (JObj ?props) ''category''
                  else JStr (determineCourseCategory ''Algebra'')),
               c_outline = map module_of [JObj [(''title'', JStr ''M'')]] \<rparr>"
    by blast
  then have "generateCourseWithGemini ?parse
         (Inr (''Here is your course: '' @ ''{'' @ ?mid @ ''}'' @ '' Enjoy!''))
         ''Algebra'' 4 ''beginner'' =
       Inr \<lparr> c_title = JStr ''T'', c_description = JStr ''D'', c_image = JUndefined,
             c_price = JUndefined, c_duration = JNum 4, c_difficulty = JStr ''beginner'',
             c_category = JStr ''Other'',
             c_outline = [\<lparr> m_title = JStr ''M'', m_description = JUndefined,
                             m_topics = [] \<rparr>] \<rparr>"
    by (simp only: v c truthy.simps if_False)
  with h1 h2 p show ?thesis
    unfolding Let_def by (intro conjI)
qed

text \<open>
  Claim C5 as stated fails twice. A reply whose first balanced span is a complete
  course followed by a second pair of braces: the claim has the course returned, the
  adapter takes the text up to the last closing brace, which does not parse, and fails
  with \<open>ParseError\<close>. A reply that is a course with an empty outline: the claim has a
  \<open>SchemaError\<close>, the adapter returns the course. \<open>JSON.parse\<close> is here the table of
  the one text that parses.
\<close>

theorem adapter_counterexample:
  "(let span = ''{\"title\":\"T\",\"description\":\"D\",\"outline\":[{\"title\":\"M\"}]}'';
        courseData = JObj [(''title'', JStr ''T''), (''description'', JStr ''D''),
                           (''outline'', JArr [JObj [(''title'', JStr ''M'')]])];
        parse = map_of [(span, courseData)]
    in first_balanced_span (''Here is your course: '' @ span @ '' {end}'') = Some span \<and>
       parse span = Some courseData \<and>
       extract_json (''Here is your course: '' @ span @ '' {end}'') = Some (span @ '' {end}'') \<and>
       generateCourseWithGemini parse (Inr (''Here is your course: '' @ span @ '' {end}''))
         ''Algebra'' 4 ''beginner'' = Inl ParseError) \<and>
   (let span = ''{\"title\":\"T\",\"description\":\"D\",\"outline\":[]}'';
        courseData = JObj [(''title'', JStr ''T''), (''description'', JStr ''D''),
                           (''outline'', JArr [])];
        parse = map_of [(span, courseData)]
    in first_balanced_span span = Some span \<and>
       generateCourseWithGemini parse (Inr span) ''Algebra'' 4 ''beginner'' =
       Inr \<lparr> c_title = JStr ''T'', c_description = JStr ''D'', c_image = JUndefined,
             c_price = JUndefined, c_duration = JNum 4, c_difficulty = JStr ''beginner'',
             c_category = JStr ''Other'', c_outline = [] \<rparr>)"
proof -
  have c: "determineCourseCategory ''Algebra'' = ''Other''"
    by (simp add: determineCourseCategory_def toLowerCase_def lower_char_def)
  show ?thesis
    by (simp add: Let_def extract_json_def generateCourseWithGemini_def build_course_def
        js_or_def c)
qed

end
